theory Spec2Isabelle
  imports Main
begin

section \<open>Strings and values of the script\<close>

text \<open>
  A Python \<open>str\<close> is a sequence of Unicode code points; a code point is a natural
  number. \<open>py\<close> turns a literal of the theory into such a string.
\<close>

type_synonym pystr = "nat list"

definition py :: "string \<Rightarrow> pystr" where
  "py s = map of_char s"

text \<open>
  \<open>str.isspace\<close> on one code point, as \<open>str.strip()\<close> without an argument uses it:
  TAB to CR, the separators FS to US, the space, NEL, the no-break space and the
  Unicode spaces beyond Latin-1.
\<close>

definition is_space :: "nat \<Rightarrow> bool" where
  "is_space c \<longleftrightarrow>
     (9 \<le> c \<and> c \<le> 13) \<or> (28 \<le> c \<and> c \<le> 32) \<or> c = 133 \<or> c = 160 \<or> c = 5760 \<or>
     (8192 \<le> c \<and> c \<le> 8202) \<or> c = 8232 \<or> c = 8233 \<or> c = 8239 \<or> c = 8287 \<or> c = 12288"

definition lstrip :: "pystr \<Rightarrow> pystr" where
  "lstrip s = dropWhile is_space s"

definition rstrip :: "pystr \<Rightarrow> pystr" where
  "rstrip s = rev (dropWhile is_space (rev s))"

text \<open>\<open>s.strip()\<close>: the leading and the trailing run of whitespace are cut off.\<close>

definition strip :: "pystr \<Rightarrow> pystr" where
  "strip s = lstrip (rstrip s)"

text \<open>
  \<open>s.split('\n')\<close>: the pieces between line feeds (code point 10); the empty string
  gives one empty piece.
\<close>

fun split_nl :: "pystr \<Rightarrow> pystr list" where
  "split_nl [] = [[]]"
| "split_nl (c # cs) =
     (if c = 10 then [] # split_nl cs
      else (case split_nl cs of [] \<Rightarrow> [[c]] | l # ls \<Rightarrow> (c # l) # ls))"

text \<open>\<open>str(n)\<close> for a non-negative integer: its decimal digits.\<close>

fun str_nat :: "nat \<Rightarrow> pystr" where
  "str_nat n = (if n < 10 then [48 + n] else str_nat (n div 10) @ [48 + n mod 10])"

declare str_nat.simps [simp del]

text \<open>
  The values a decoded JSON body holds (\<open>response.json()\<close>): \<open>None\<close>, booleans,
  integers, strings, lists and dictionaries (in insertion order). Numbers with a
  fraction or an exponent are not modelled.
\<close>

datatype pyval =
    PNone
  | PBool bool
  | PInt int
  | PStr pystr
  | PList "pyval list"
  | PDict "(pystr \<times> pyval) list"

section \<open>Data model\<close>

text \<open>\<open>TECH_AREAS\<close>, the compiled-in list of technology areas.\<close>

definition TECH_AREAS :: "pystr list" where
  "TECH_AREAS = map py
     [''AI and ML'', ''Application Infrastructure and Software'', ''Augmented and Virtual Reality'',
      ''Blockchain'', ''Cloud Computing and Virtualization'', ''Computer Vision'', ''Cryptology'',
      ''Cybersecurity'', ''Data Science'', ''Digital Forensics'', ''Enterprise Business Technologies'',
      ''Hardware, Semiconductors and Embedded'', ''Human Computer Interaction'',
      ''Identity Management and Authentication'', ''Internet of Things'', ''Location and Presence'',
      ''Material Science'', ''Mobility and End Points'', ''Natural Language Processing'',
      ''Next Generation Computing'', ''Operating Systems'', ''Quantum Technology'',
      ''Robotics and Automation'', ''Software Defined Infrastructure'', ''Unmanned Aerial Vehicles'',
      ''Wireless and Networking Technologies'', ''5G and 6G'', ''API and development'',
      ''Mobile development'', ''Website development'']"

record rule =
  rule_id :: pystr
  rule_type :: pystr
  rule_value :: pystr

record column =
  col_id :: pystr
  col_hidden :: bool
  entityType :: pystr
  col_type :: pystr
  generate :: bool
  query :: pystr
  rules :: "rule list"

record chunk =
  content :: pystr

record row =
  row_id :: pystr
  sourceData :: pystr
  row_hidden :: bool
  row_cells :: "(pystr \<times> pyval) list"

record cell =
  rowId :: pystr
  columnId :: pystr
  answer :: pyval

text \<open>\<open>company_data\<close>, one entry of \<open>results\<close>: a dictionary with four fixed keys.\<close>

record company_data =
  Company :: pystr
  Is_Indian :: pyval
  Is_Startup :: pyval
  Is_Tech :: pyval

section \<open>Column Builder\<close>

text \<open>\<open>sep.join(xs)\<close>.\<close>

fun join :: "pystr \<Rightarrow> pystr list \<Rightarrow> pystr" where
  "join sep [] = []"
| "join sep [x] = x"
| "join sep (x # y # ys) = x @ sep @ join sep (y # ys)"



definition create_table_columns :: "column list" where
  "create_table_columns =
     [\<lparr>col_id = py ''is_indian'', col_hidden = False, entityType = py ''Company'',
       col_type = py ''boolean'', generate = True,
       query = py ''Is this company based in India or of Indian origin?'',
       rules = [\<lparr>rule_id = py ''rule1'', rule_type = py ''format'', rule_value = py ''Y/N''\<rparr>]\<rparr>,
      \<lparr>col_id = py ''is_startup'', col_hidden = False, entityType = py ''Company'',
       col_type = py ''boolean'', generate = True,
       query = py ''Is this company a startup?'',
       rules = [\<lparr>rule_id = py ''rule2'', rule_type = py ''format'', rule_value = py ''Y/N''\<rparr>]\<rparr>,
      \<lparr>col_id = py ''is_tech'', col_hidden = False, entityType = py ''Company'',
       col_type = py ''boolean'', generate = True,
       query = py ''Is this company related to technology, specifically in any of these areas: ''
                 @ join (py '', '') TECH_AREAS @ py ''?'',
       rules = [\<lparr>rule_id = py ''rule3'', rule_type = py ''format'', rule_value = py ''Y/N''\<rparr>]\<rparr>]"

section \<open>Row Builder\<close>

text \<open>The row identifier \<open>f"row_{i}_{len(rows)}"\<close>.\<close>

definition mk_row_id :: "nat \<Rightarrow> nat \<Rightarrow> pystr" where
  "mk_row_id i n = py ''row_'' @ str_nat i @ py ''_'' @ str_nat n"

text \<open>
  The inner loop of \<open>create_table_rows\<close>, \<open>for line in lines\<close>, over the rows built so
  far: a line that is not blank appends one row.
\<close>

fun rows_lines_loop :: "nat \<Rightarrow> pystr list \<Rightarrow> row list \<Rightarrow> row list" where
  "rows_lines_loop i [] rows = rows"
| "rows_lines_loop i (line # lines) rows =
     rows_lines_loop i lines
       (if strip line \<noteq> []
        then rows @ [\<lparr>row_id = mk_row_id i (length rows), sourceData = strip line,
                      row_hidden = False, row_cells = []\<rparr>]
        else rows)"

text \<open>One pass of the outer loop: the lines of the stripped chunk text go through the inner loop.\<close>

definition rows_chunk_step :: "nat \<Rightarrow> chunk \<Rightarrow> row list \<Rightarrow> row list" where
  "rows_chunk_step i chunk rows = rows_lines_loop i (split_nl (strip (content chunk))) rows"

text \<open>The outer loop, \<open>for i, chunk in enumerate(chunks)\<close>.\<close>

fun rows_chunks_loop :: "nat \<Rightarrow> chunk list \<Rightarrow> row list \<Rightarrow> row list" where
  "rows_chunks_loop i [] rows = rows"
| "rows_chunks_loop i (chunk # chunks) rows =
     rows_chunks_loop (Suc i) chunks (rows_chunk_step i chunk rows)"

text \<open>The rows of a document's chunks: the loops started with \<open>rows = []\<close>.\<close>

definition build_rows :: "chunk list \<Rightarrow> row list" where
  "build_rows chunks = rows_chunks_loop 0 chunks []"

text \<open>The non-blank lines of a text: the lines that keep a character when stripped.\<close>

definition nonblank_lines :: "pystr \<Rightarrow> pystr list" where
  "nonblank_lines s = filter (\<lambda>l. strip l \<noteq> []) (split_nl s)"

section \<open>Aggregation\<close>

text \<open>
  The loop \<open>for cell in cells\<close> for one row: a cell of this row overwrites the field
  its \<open>columnId\<close> names; any other cell leaves \<open>company_data\<close> as it is.
\<close>

fun cells_loop :: "row \<Rightarrow> cell list \<Rightarrow> company_data \<Rightarrow> company_data" where
  "cells_loop row [] company_data = company_data"
| "cells_loop row (cell # cells) company_data =
     cells_loop row cells
       (if rowId cell = row_id row then
          (if columnId cell = py ''is_indian'' then company_data\<lparr>Is_Indian := answer cell\<rparr>
           else if columnId cell = py ''is_startup'' then company_data\<lparr>Is_Startup := answer cell\<rparr>
           else if columnId cell = py ''is_tech'' then company_data\<lparr>Is_Tech := answer cell\<rparr>
           else company_data)
        else company_data)"

text \<open>The entry of \<open>results\<close> for one row: the three fields start as \<open>"N/A"\<close>.\<close>

definition row_result :: "cell list \<Rightarrow> row \<Rightarrow> company_data" where
  "row_result cells row =
     cells_loop row cells
       \<lparr>Company = sourceData row, Is_Indian = PStr (py ''N/A''),
        Is_Startup = PStr (py ''N/A''), Is_Tech = PStr (py ''N/A'')\<rparr>"

text \<open>Step 5 of the workflow, \<open>for row in rows\<close>: one entry per row, in the rows' order.\<close>

definition aggregate :: "row list \<Rightarrow> cell list \<Rightarrow> company_data list" where
  "aggregate rows cells = map (row_result cells) rows"

text \<open>The cells of a row for one column, in the order of the response.\<close>

definition matching :: "row \<Rightarrow> pystr \<Rightarrow> cell list \<Rightarrow> cell list" where
  "matching row col cells = filter (\<lambda>c. rowId c = row_id row \<and> columnId c = col) cells"

section \<open>Printing and saving\<close>

text \<open>
  The exceptions of a run: the script's own \<open>Exception(message)\<close>, the \<open>TypeError\<close> of a
  format specification, and what the outside can raise (\<open>OSError\<close> from a file,
  \<open>RequestException\<close> from the HTTP library, \<open>UnicodeEncodeError\<close> from the output
  stream). All of them are caught by \<open>except Exception\<close>; \<open>str(e)\<close> is the message.
\<close>

datatype exn =
    Exception pystr
  | TypeError pystr
  | OSError pystr
  | RequestException pystr
  | UnicodeEncodeError pystr

fun str_exn :: "exn \<Rightarrow> pystr" where
  "str_exn (Exception msg) = msg"
| "str_exn (TypeError msg) = msg"
| "str_exn (OSError msg) = msg"
| "str_exn (RequestException msg) = msg"
| "str_exn (UnicodeEncodeError msg) = msg"

text \<open>\<open>str(n)\<close> for an integer.\<close>

definition str_int :: "int \<Rightarrow> pystr" where
  "str_int n = (if n < 0 then 45 # str_nat (nat (- n)) else str_nat (nat n))"

text \<open>\<open>s.ljust(w)\<close>: padded with spaces on the right, never cut.\<close>

definition ljust :: "nat \<Rightarrow> pystr \<Rightarrow> pystr" where
  "ljust w s = s @ replicate (w - length s) 32"

text \<open>
  \<open>format(v, '<w')\<close>, what an f-string field \<open>{v:<w}\<close> evaluates: a string is padded, an
  integer is written in decimal and padded, a boolean is formatted as the integer it
  is, and \<open>None\<close>, a list and a dictionary raise \<open>TypeError\<close>.
\<close>

fun format_left :: "nat \<Rightarrow> pyval \<Rightarrow> exn + pystr" where
  "format_left w (PStr s) = Inr (ljust w s)"
| "format_left w (PInt n) = Inr (ljust w (str_int n))"
| "format_left w (PBool b) = Inr (ljust w (if b then py ''1'' else py ''0''))"
| "format_left w PNone =
     Inl (TypeError (py ''unsupported format string passed to NoneType.__format__''))"
| "format_left w (PList xs) =
     Inl (TypeError (py ''unsupported format string passed to list.__format__''))"
| "format_left w (PDict kvs) =
     Inl (TypeError (py ''unsupported format string passed to dict.__format__''))"

text \<open>One line of the table; the fields are formatted from left to right.\<close>

definition table_line :: "company_data \<Rightarrow> exn + pystr" where
  "table_line result =
     (case format_left 10 (Is_Indian result) of Inl e \<Rightarrow> Inl e | Inr a \<Rightarrow>
      (case format_left 10 (Is_Startup result) of Inl e \<Rightarrow> Inl e | Inr b \<Rightarrow>
       (case format_left 10 (Is_Tech result) of Inl e \<Rightarrow> Inl e | Inr c \<Rightarrow>
          Inr (ljust 30 (Company result) @ py '' | '' @ a @ py '' | '' @ b @ py '' | '' @ c))))"

definition table_header :: pystr where
  "table_header = ljust 30 (py ''Company'') @ py '' | '' @ ljust 10 (py ''Is Indian'') @ py '' | ''
     @ ljust 10 (py ''Is Startup'') @ py '' | '' @ ljust 10 (py ''Is Tech'')"

subsection \<open>\<open>json.dump(results, f, indent=2)\<close>\<close>

definition hex_digit :: "nat \<Rightarrow> nat" where
  "hex_digit d = (if d < 10 then 48 + d else 87 + d)"

definition hex4 :: "nat \<Rightarrow> pystr" where
  "hex4 n = [hex_digit (n div 4096 mod 16), hex_digit (n div 256 mod 16),
             hex_digit (n div 16 mod 16), hex_digit (n mod 16)]"

text \<open>
  The escape of one code point under \<open>ensure_ascii\<close>: the short escapes, the printable
  ASCII characters as they are, \<open>\uXXXX\<close> for the rest of the basic plane and a
  surrogate pair beyond it.
\<close>

definition escape_char :: "nat \<Rightarrow> pystr" where
  "escape_char c =
     (if c = 92 then [92, 92] else if c = 34 then [92, 34]
      else if c = 8 then [92, 98] else if c = 12 then [92, 102]
      else if c = 10 then [92, 110] else if c = 13 then [92, 114]
      else if c = 9 then [92, 116]
      else if 32 \<le> c \<and> c \<le> 126 then [c]
      else if c < 65536 then [92, 117] @ hex4 c
      else [92, 117] @ hex4 (55296 + (c - 65536) div 1024 mod 1024)
         @ [92, 117] @ hex4 (56320 + (c - 65536) mod 1024))"

definition encode_str :: "pystr \<Rightarrow> pystr" where
  "encode_str s = [34] @ concat (map escape_char s) @ [34]"

text \<open>A line feed and the indentation of a nesting level (two spaces per level).\<close>

definition newline_indent :: "nat \<Rightarrow> pystr" where
  "newline_indent level = 10 # replicate (2 * level) 32"

fun json_enc :: "nat \<Rightarrow> pyval \<Rightarrow> pystr"
  and json_enc_items :: "nat \<Rightarrow> pyval list \<Rightarrow> pystr"
  and json_enc_members :: "nat \<Rightarrow> (pystr \<times> pyval) list \<Rightarrow> pystr" where
  "json_enc level PNone = py ''null''"
| "json_enc level (PBool b) = (if b then py ''true'' else py ''false'')"
| "json_enc level (PInt n) = str_int n"
| "json_enc level (PStr s) = encode_str s"
| "json_enc level (PList xs) =
     (if xs = [] then py ''[]''
      else [91] @ newline_indent (Suc level) @ json_enc_items (Suc level) xs
           @ newline_indent level @ [93])"
| "json_enc level (PDict kvs) =
     (if kvs = [] then py ''{}''
      else [123] @ newline_indent (Suc level) @ json_enc_members (Suc level) kvs
           @ newline_indent level @ [125])"
| "json_enc_items level [] = []"
| "json_enc_items level (x # xs) =
     json_enc level x
       @ (if xs = [] then [] else [44] @ newline_indent level @ json_enc_items level xs)"
| "json_enc_members level [] = []"
| "json_enc_members level (kv # kvs) =
     encode_str (fst kv) @ [58, 32] @ json_enc level (snd kv)
       @ (if kvs = [] then [] else [44] @ newline_indent level @ json_enc_members level kvs)"

text \<open>An entry of \<open>results\<close> as the dictionary it is, keys in the order of the literal.\<close>

definition dict_of_company_data :: "company_data \<Rightarrow> pyval" where
  "dict_of_company_data result =
     PDict [(py ''Company'', PStr (Company result)), (py ''Is Indian'', Is_Indian result),
            (py ''Is Startup'', Is_Startup result), (py ''Is Tech'', Is_Tech result)]"

definition json_dump :: "company_data list \<Rightarrow> pystr" where
  "json_dump results = json_enc 0 (PList (map dict_of_company_data results))"

section \<open>The workflow\<close>

text \<open>
  What a run does to the outside, in order: the HTTP requests it sends (method and
  URL), the lines it prints, and the file it writes.
\<close>

datatype event = Http pystr pystr | Print pystr | Write_file pystr pystr

text \<open>
  An HTTP response: its status code, its raw body, and the member of the decoded body
  the script reads (\<open>id\<close> of an upload, the chunk list, \<open>cells\<close> of a generation).
\<close>

record 'a response =
  status_code :: int
  resp_text :: pystr
  json :: 'a

text \<open>
  The outside of the script. \<open>open_pdf\<close>: whether \<open>open(pdf_path, 'rb')\<close> raises. The three
  requests: the exception the HTTP library raises, or the response. \<open>stdout_write\<close>:
  whether \<open>print\<close> of a line raises. \<open>open_output\<close>: whether opening the output file for
  writing raises.
\<close>

record env =
  open_pdf :: "pystr \<Rightarrow> exn option"
  post_document :: "pystr \<Rightarrow> exn + pystr response"
  get_chunks :: "pystr \<Rightarrow> exn + chunk list response"
  post_generate_cells :: "column list \<Rightarrow> row list \<Rightarrow> exn + cell list response"
  stdout_write :: "pystr \<Rightarrow> exn option"
  open_output :: "pystr \<Rightarrow> exn option"

definition API_BASE_URL :: pystr where
  "API_BASE_URL = py ''http://localhost:8000/api/v1''"

text \<open>
  A computation of the script: the events it caused, and the exception it raised
  (\<open>Inl\<close>) or the value it returned (\<open>Inr\<close>). \<open>bind_io\<close> is sequencing: an exception
  skips everything that follows it.
\<close>

type_synonym 'a io = "event list \<times> (exn + 'a)"

definition bind_io :: "'a io \<Rightarrow> ('a \<Rightarrow> 'b io) \<Rightarrow> 'b io" where
  "bind_io m f =
     (case m of
        (t, Inl e) \<Rightarrow> (t, Inl e)
      | (t, Inr x) \<Rightarrow> (case f x of (t', r) \<Rightarrow> (t @ t', r)))"

definition return_io :: "'a \<Rightarrow> 'a io" where
  "return_io x = ([], Inr x)"

definition print_io :: "env \<Rightarrow> pystr \<Rightarrow> unit io" where
  "print_io env s =
     (case stdout_write env s of
        Some e \<Rightarrow> ([], Inl e)
      | None \<Rightarrow> ([Print s], Inr ()))"

definition upload_pdf :: "env \<Rightarrow> pystr \<Rightarrow> pystr io" where
  "upload_pdf env pdf_path =
     (case open_pdf env pdf_path of
        Some e \<Rightarrow> ([], Inl e)
      | None \<Rightarrow>
         (case post_document env pdf_path of
            Inl e \<Rightarrow> ([Http (py ''POST'') (API_BASE_URL @ py ''/document'')], Inl e)
          | Inr response \<Rightarrow>
             ([Http (py ''POST'') (API_BASE_URL @ py ''/document'')],
              if status_code response \<noteq> 201
              then Inl (Exception (py ''Failed to upload document: '' @ resp_text response))
              else Inr (json response))))"

definition create_table_rows :: "env \<Rightarrow> pystr \<Rightarrow> row list io" where
  "create_table_rows env document_id =
     (case get_chunks env document_id of
        Inl e \<Rightarrow>
          ([Http (py ''GET'') (API_BASE_URL @ py ''/document/'' @ document_id @ py ''/chunks'')],
           Inl e)
      | Inr response \<Rightarrow>
          ([Http (py ''GET'') (API_BASE_URL @ py ''/document/'' @ document_id @ py ''/chunks'')],
           if status_code response \<noteq> 200
           then Inl (Exception (py ''Failed to get document chunks: '' @ resp_text response))
           else Inr (build_rows (json response))))"

definition generate_table_cells :: "env \<Rightarrow> column list \<Rightarrow> row list \<Rightarrow> cell list io" where
  "generate_table_cells env columns rows =
     (case post_generate_cells env columns rows of
        Inl e \<Rightarrow> ([Http (py ''POST'') (API_BASE_URL @ py ''/query/generate-cells'')], Inl e)
      | Inr response \<Rightarrow>
          ([Http (py ''POST'') (API_BASE_URL @ py ''/query/generate-cells'')],
           if status_code response \<noteq> 200
           then Inl (Exception (py ''Failed to generate cells: '' @ resp_text response))
           else Inr (json response)))"

text \<open>
  The loop that prints the table: a field that cannot be formatted, or a line the output
  stream refuses, ends it.
\<close>

fun print_results :: "env \<Rightarrow> company_data list \<Rightarrow> unit io" where
  "print_results env [] = return_io ()"
| "print_results env (result # results) =
     (case table_line result of
        Inl e \<Rightarrow> ([], Inl e)
      | Inr line \<Rightarrow> bind_io (print_io env line) (\<lambda>_. print_results env results))"

text \<open>\<open>with open(..., 'w') as f: json.dump(results, f, indent=2)\<close>.\<close>

definition save_results :: "env \<Rightarrow> company_data list \<Rightarrow> unit io" where
  "save_results env results =
     (case open_output env (py ''company_classification_results.json'') of
        Some e \<Rightarrow> ([], Inl e)
      | None \<Rightarrow>
          ([Write_file (py ''company_classification_results.json'') (json_dump results)],
           Inr ()))"

text \<open>The body of the \<open>try\<close> block of \<open>process_pdf_and_classify_companies\<close>.\<close>

definition workflow :: "env \<Rightarrow> pystr \<Rightarrow> unit io" where
  "workflow env pdf_path =
     bind_io (upload_pdf env pdf_path) (\<lambda>document_id.
     bind_io (print_io env (py ''Document uploaded successfully with ID: '' @ document_id)) (\<lambda>_.
     bind_io (return_io create_table_columns) (\<lambda>columns.
     bind_io (print_io env (py ''Table columns created'')) (\<lambda>_.
     bind_io (create_table_rows env document_id) (\<lambda>rows.
     bind_io (print_io env (py ''Created '' @ str_nat (length rows) @ py '' rows from document'')) (\<lambda>_.
     bind_io (generate_table_cells env columns rows) (\<lambda>cells.
     bind_io (print_io env (py ''Generated '' @ str_nat (length cells) @ py '' cells'')) (\<lambda>_.
     bind_io (return_io (aggregate rows cells)) (\<lambda>results.
     bind_io (print_io env (10 # py ''Company Classification Results:'')) (\<lambda>_.
     bind_io (print_io env (replicate 80 45)) (\<lambda>_.
     bind_io (print_io env table_header) (\<lambda>_.
     bind_io (print_io env (replicate 80 45)) (\<lambda>_.
     bind_io (print_results env results) (\<lambda>_.
     bind_io (save_results env results) (\<lambda>_.
     print_io env (10 # py ''Results saved to company_classification_results.json''))))))))))))))))"

text \<open>
  \<open>process_pdf_and_classify_companies\<close>: the body, and the handler
  \<open>except Exception as e: print(f"Error: {str(e)}")\<close>. An exception of the handler's own
  \<open>print\<close> leaves the function.
\<close>

definition process_pdf_and_classify_companies :: "env \<Rightarrow> pystr \<Rightarrow> unit io" where
  "process_pdf_and_classify_companies env pdf_path =
     (case workflow env pdf_path of
        (t, Inl e) \<Rightarrow>
          (case print_io env (py ''Error: '' @ str_exn e) of (t', r) \<Rightarrow> (t @ t', r))
      | (t, Inr u) \<Rightarrow> (t, Inr ()))"

text \<open>The files a run wrote (name and content), and the lines it printed.\<close>

fun files_written :: "event list \<Rightarrow> (pystr \<times> pystr) list" where
  "files_written [] = []"
| "files_written (Write_file name data # t) = (name, data) # files_written t"
| "files_written (e # t) = files_written t"


text \<open>
  An outside for examples: the three requests answer with the given status codes, the
  document has one chunk with two company names, the generation answers for the first
  of them, and files and the output stream raise nothing.
\<close>

definition example_env :: "int \<Rightarrow> int \<Rightarrow> int \<Rightarrow> env" where
  "example_env s1 s2 s3 =
     \<lparr>open_pdf = (\<lambda>path. None),
      post_document = (\<lambda>path.
        Inr \<lparr>status_code = s1, resp_text = py ''upload refused'', json = py ''doc1''\<rparr>),
      get_chunks = (\<lambda>document_id.
        Inr \<lparr>status_code = s2, resp_text = py ''no chunks'',
             json = [\<lparr>content = py ''Acme Corp\<newline>\<newline>Beta Inc\<newline>''\<rparr>]\<rparr>),
      post_generate_cells = (\<lambda>columns rows.
        Inr \<lparr>status_code = s3, resp_text = py ''busy'',
             json = [\<lparr>rowId = py ''row_0_0'', columnId = py ''is_indian'', answer = PStr (py ''Y'')\<rparr>,
                     \<lparr>rowId = py ''row_0_0'', columnId = py ''is_startup'', answer = PStr (py ''N'')\<rparr>,
                     \<lparr>rowId = py ''row_0_0'', columnId = py ''is_tech'', answer = PBool True\<rparr>]\<rparr>),
      stdout_write = (\<lambda>line. None),
      open_output = (\<lambda>name. None)\<rparr>"

text \<open>
  A run in which the body raised \<open>e\<close>: the handler caught it, its line \<open>Error: ...\<close> with
  the message of \<open>e\<close> is the last thing printed (if the output stream takes it), and no
  file was written.
\<close>

definition caught_and_reported :: "env \<Rightarrow> pystr \<Rightarrow> exn \<Rightarrow> bool" where
  "caught_and_reported env pdf_path e \<longleftrightarrow>
     snd (workflow env pdf_path) = Inl e
     \<and> fst (process_pdf_and_classify_companies env pdf_path) =
         fst (workflow env pdf_path) @
           (case stdout_write env (py ''Error: '' @ str_exn e) of
              None \<Rightarrow> [Print (py ''Error: '' @ str_exn e)]
            | Some x \<Rightarrow> [])
     \<and> files_written (fst (process_pdf_and_classify_companies env pdf_path)) = []"

section \<open>Properties of the Row Builder\<close>

lemma split_nl_nonempty: "split_nl s \<noteq> []"
  by (induction s) (auto split: list.splits)

lemma str_nat_digits: "c \<in> set (str_nat n) \<Longrightarrow> 48 \<le> c \<and> c \<le> 57"
proof (induction n rule: str_nat.induct)
  case (1 n)
  show ?case
  proof (cases "n < 10")
    case True
    with "1.prems" show ?thesis by (simp add: str_nat.simps [of n])
  next
    case False
    with "1.prems" "1.IH" show ?thesis
      by (auto simp add: str_nat.simps [of n])
  qed
qed

lemma digits_val_str_nat: "foldl (\<lambda>a c. 10 * a + (c - 48)) 0 (str_nat n) = n"
proof (induction n rule: str_nat.induct)
  case (1 n)
  show ?case
  proof (cases "n < 10")
    case True
    then show ?thesis by (simp add: str_nat.simps [of n])
  next
    case False
    with "1.IH" show ?thesis
      by (simp add: str_nat.simps [of n])
  qed
qed

lemma str_nat_inj: "str_nat m = str_nat n \<Longrightarrow> m = n"
proof -
  assume "str_nat m = str_nat n"
  then have "foldl (\<lambda>a c. 10 * a + (c - 48)) 0 (str_nat m)
      = foldl (\<lambda>a c. 10 * a + (c - 48)) 0 (str_nat n)" by simp
  then show "m = n" by (simp only: digits_val_str_nat)
qed

lemma takeWhile_sep: "c \<notin> set xs \<Longrightarrow> takeWhile (\<lambda>x. x \<noteq> c) (xs @ c # ys) = xs"
  by (induction xs) auto

lemma sep_unique:
  assumes "xs @ c # ys = xs' @ c # ys'" "c \<notin> set xs" "c \<notin> set xs'"
  shows "xs = xs' \<and> ys = ys'"
proof -
  have "takeWhile (\<lambda>x. x \<noteq> c) (xs @ c # ys) = xs" using assms(2)
    by (rule takeWhile_sep)
  moreover have "takeWhile (\<lambda>x. x \<noteq> c) (xs' @ c # ys') = xs'" using assms(3)
    by (rule takeWhile_sep)
  ultimately have "xs = xs'" using assms(1) by simp
  with assms(1) show ?thesis by simp
qed

lemma mk_row_id_inj: "mk_row_id i n = mk_row_id i' n' \<Longrightarrow> i = i' \<and> n = n'"
proof -
  assume a: "mk_row_id i n = mk_row_id i' n'"
  have u: "95 \<notin> set (str_nat k)" for k using str_nat_digits [of 95 k] by auto
  from a have e: "str_nat i @ 95 # str_nat n = str_nat i' @ 95 # str_nat n'"
    by (simp add: mk_row_id_def py_def)
  have "str_nat i = str_nat i' \<and> str_nat n = str_nat n'"
    by (rule sep_unique [OF e u u])
  then show ?thesis by (simp add: str_nat_inj)
qed

lemma rstrip_Cons:
  "rstrip (c # l) = (if rstrip l = [] \<and> is_space c then [] else c # rstrip l)"
  by (auto simp add: rstrip_def dropWhile_append dropWhile_eq_Nil_conv)

lemma rstrip_Nil [simp]: "rstrip [] = []"
  by (simp add: rstrip_def)

lemma lstrip_rstrip_commute: "lstrip (rstrip l) = rstrip (lstrip l)"
proof (induction l)
  case Nil
  show ?case by (simp add: lstrip_def)
next
  case (Cons c l)
  show ?case
  proof (cases "is_space c")
    case True
    have "lstrip (rstrip (c # l)) = lstrip (rstrip l)"
      using True by (simp add: rstrip_Cons lstrip_def)
    with Cons True show ?thesis by (simp add: lstrip_def)
  next
    case False
    then show ?thesis by (simp add: rstrip_Cons lstrip_def)
  qed
qed

lemma strip_Nil [simp]: "strip [] = []"
  by (simp add: strip_def lstrip_def)

lemma strip_space_Cons: "is_space c \<Longrightarrow> strip (c # l) = strip l"
  by (simp add: strip_def rstrip_Cons lstrip_def)

lemma strip_rev: "strip (rev l) = rev (strip l)"
proof -
  have "strip (rev l) = lstrip (rev (lstrip l))"
    by (simp add: strip_def rstrip_def lstrip_def)
  also have "\<dots> = rev (rstrip (lstrip l))"
    by (simp add: rstrip_def lstrip_def)
  finally show ?thesis by (simp add: strip_def lstrip_rstrip_commute)
qed

lemma split_nl_snoc:
  "split_nl (xs @ [c]) =
     (if c = 10 then split_nl xs @ [[]]
      else butlast (split_nl xs) @ [last (split_nl xs) @ [c]])"
proof (induction xs)
  case Nil
  show ?case by simp
next
  case (Cons x xs)
  obtain l ls where s: "split_nl xs = l # ls"
    using split_nl_nonempty [of xs] by (cases "split_nl xs") auto
  show ?case using Cons s split_nl_nonempty [of xs]
    by (auto split: list.splits)
qed

lemma split_nl_rev: "split_nl (rev s) = rev (map rev (split_nl s))"
proof (induction s)
  case Nil
  show ?case by simp
next
  case (Cons c cs)
  obtain l ls where s: "split_nl cs = l # ls"
    using split_nl_nonempty [of cs] by (cases "split_nl cs") auto
  show ?case using Cons s
    by (simp add: split_nl_snoc)
qed

lemma filter_nonblank_rev:
  "filter (\<lambda>l. strip l \<noteq> []) (rev (map rev xs)) = rev (map rev (filter (\<lambda>l. strip l \<noteq> []) xs))"
  by (induction xs) (simp_all add: strip_rev)

lemma nonblank_lines_rev: "nonblank_lines (rev s) = rev (map rev (nonblank_lines s))"
  by (simp add: nonblank_lines_def split_nl_rev filter_nonblank_rev)

lemma nonblank_lstrip:
  "map strip (nonblank_lines (lstrip s)) = map strip (nonblank_lines s)"
proof (induction s)
  case Nil
  show ?case by (simp add: lstrip_def)
next
  case (Cons c cs)
  show ?case
  proof (cases "is_space c")
    case False
    then show ?thesis by (simp add: lstrip_def)
  next
    case True
    obtain l ls where s: "split_nl cs = l # ls"
      using split_nl_nonempty [of cs] by (cases "split_nl cs") auto
    have "map strip (nonblank_lines (c # cs)) = map strip (nonblank_lines cs)"
      using True s by (simp add: nonblank_lines_def strip_space_Cons)
    moreover have "lstrip (c # cs) = lstrip cs" using True by (simp add: lstrip_def)
    ultimately show ?thesis using Cons by simp
  qed
qed

lemma nonblank_rstrip:
  "map strip (nonblank_lines (rstrip s)) = map strip (nonblank_lines s)"
proof -
  have "rstrip s = rev (lstrip (rev s))" by (simp add: rstrip_def lstrip_def)
  then have "map strip (nonblank_lines (rstrip s))
      = rev (map rev (map strip (nonblank_lines (lstrip (rev s)))))"
    by (simp add: nonblank_lines_rev rev_map o_def strip_rev)
  also have "\<dots> = rev (map rev (map strip (nonblank_lines (rev s))))"
    by (simp only: nonblank_lstrip)
  also have "\<dots> = map strip (nonblank_lines s)"
    by (simp add: nonblank_lines_rev rev_map o_def strip_rev)
  finally show ?thesis .
qed

lemma nonblank_strip:
  "map strip (nonblank_lines (strip s)) = map strip (nonblank_lines s)"
  by (simp add: strip_def nonblank_lstrip nonblank_rstrip)

lemma rows_lines_loop_append:
  "\<exists>new. rows_lines_loop i lines rows = rows @ new
     \<and> map sourceData new = map strip (filter (\<lambda>l. strip l \<noteq> []) lines)
     \<and> (\<forall>r \<in> set new. row_cells r = [] \<and> row_hidden r = False)
     \<and> (\<forall>j < length new. row_id (new ! j) = mk_row_id i (length rows + j))"
proof (induction lines arbitrary: rows)
  case Nil
  show ?case by simp
next
  case (Cons line lines)
  show ?case
  proof (cases "strip line = []")
    case True
    with Cons [of rows] show ?thesis by simp
  next
    case False
    define r where "r = \<lparr>row_id = mk_row_id i (length rows), sourceData = strip line,
                      row_hidden = False, row_cells = []\<rparr>"
    from Cons [of "rows @ [r]"] obtain new where
      n: "rows_lines_loop i lines (rows @ [r]) = (rows @ [r]) @ new"
        "map sourceData new = map strip (filter (\<lambda>l. strip l \<noteq> []) lines)"
        "\<forall>r \<in> set new. row_cells r = [] \<and> row_hidden r = False"
        "\<forall>j < length new. row_id (new ! j) = mk_row_id i (length (rows @ [r]) + j)"
      by blast
    have "rows_lines_loop i (line # lines) rows = rows @ (r # new)"
      using False n(1) by (simp add: r_def)
    moreover have "map sourceData (r # new) = map strip (filter (\<lambda>l. strip l \<noteq> []) (line # lines))"
      using False n(2) by (simp add: r_def)
    moreover have "\<forall>x \<in> set (r # new). row_cells x = [] \<and> row_hidden x = False"
      using n(3) by (simp add: r_def)
    moreover have "\<forall>j < length (r # new). row_id ((r # new) ! j) = mk_row_id i (length rows + j)"
    proof (intro allI impI)
      fix j assume "j < length (r # new)"
      then show "row_id ((r # new) ! j) = mk_row_id i (length rows + j)"
        using n(4) by (cases j) (simp_all add: r_def)
    qed
    ultimately show ?thesis by blast
  qed
qed

lemma rows_chunk_step_append:
  "\<exists>new. rows_chunk_step i chunk rows = rows @ new
     \<and> map sourceData new = map strip (nonblank_lines (content chunk))
     \<and> (\<forall>r \<in> set new. row_cells r = [] \<and> row_hidden r = False)
     \<and> (\<forall>j < length new. row_id (new ! j) = mk_row_id i (length rows + j))"
proof -
  have e: "map strip (filter (\<lambda>l. strip l \<noteq> []) (split_nl (strip (content chunk))))
      = map strip (nonblank_lines (content chunk))"
    using nonblank_strip [of "content chunk"] by (simp only: nonblank_lines_def)
  show ?thesis
    using rows_lines_loop_append [of i "split_nl (strip (content chunk))" rows]
    unfolding rows_chunk_step_def e .
qed

lemma rows_chunks_loop_append:
  "\<exists>new. rows_chunks_loop i chunks rows = rows @ new
     \<and> map sourceData new = concat (map (\<lambda>c. map strip (nonblank_lines (content c))) chunks)
     \<and> (\<forall>r \<in> set new. row_cells r = [] \<and> row_hidden r = False)
     \<and> (\<forall>j < length new. \<exists>k. row_id (new ! j) = mk_row_id k (length rows + j))"
proof (induction chunks arbitrary: i rows)
  case Nil
  show ?case by simp
next
  case (Cons chunk chunks)
  from rows_chunk_step_append [of i chunk rows] obtain a where
    a: "rows_chunk_step i chunk rows = rows @ a"
       "map sourceData a = map strip (nonblank_lines (content chunk))"
       "\<forall>r \<in> set a. row_cells r = [] \<and> row_hidden r = False"
       "\<forall>j < length a. row_id (a ! j) = mk_row_id i (length rows + j)"
    by blast
  from Cons [of "Suc i" "rows @ a"] obtain b where
    b: "rows_chunks_loop (Suc i) chunks (rows @ a) = (rows @ a) @ b"
       "map sourceData b = concat (map (\<lambda>c. map strip (nonblank_lines (content c))) chunks)"
       "\<forall>r \<in> set b. row_cells r = [] \<and> row_hidden r = False"
       "\<forall>j < length b. \<exists>k. row_id (b ! j) = mk_row_id k (length (rows @ a) + j)"
    by blast
  have "rows_chunks_loop i (chunk # chunks) rows = rows @ (a @ b)"
    using a(1) b(1) by simp
  moreover have "map sourceData (a @ b)
      = concat (map (\<lambda>c. map strip (nonblank_lines (content c))) (chunk # chunks))"
    using a(2) b(2) by simp
  moreover have "\<forall>r \<in> set (a @ b). row_cells r = [] \<and> row_hidden r = False"
    using a(3) b(3) by auto
  moreover have "\<forall>j < length (a @ b). \<exists>k. row_id ((a @ b) ! j) = mk_row_id k (length rows + j)"
  proof (intro allI impI)
    fix j assume j: "j < length (a @ b)"
    show "\<exists>k. row_id ((a @ b) ! j) = mk_row_id k (length rows + j)"
    proof (cases "j < length a")
      case True
      then show ?thesis using a(4) by (auto simp add: nth_append)
    next
      case False
      then have "j - length a < length b" using j by simp
      with b(4) obtain k where
        "row_id (b ! (j - length a)) = mk_row_id k (length (rows @ a) + (j - length a))"
        by blast
      then show ?thesis using False by (auto simp add: nth_append)
    qed
  qed
  ultimately show ?case by blast
qed

lemma build_rows_props:
  "map sourceData (build_rows chunks) = concat (map (\<lambda>c. map strip (nonblank_lines (content c))) chunks)
   \<and> (\<forall>r \<in> set (build_rows chunks). row_cells r = [] \<and> row_hidden r = False)
   \<and> (\<forall>j < length (build_rows chunks). \<exists>k. row_id (build_rows chunks ! j) = mk_row_id k j)"
  using rows_chunks_loop_append [of 0 chunks "[]"] by (auto simp add: build_rows_def)

lemma build_rows_distinct: "distinct (map row_id (build_rows chunks))"
proof -
  have "\<forall>j < length (build_rows chunks). \<exists>k. row_id (build_rows chunks ! j) = mk_row_id k j"
    using build_rows_props by blast
  then show ?thesis
    by (auto simp add: distinct_conv_nth dest!: mk_row_id_inj) (metis mk_row_id_inj)
qed

lemma build_rows_length:
  "length (build_rows chunks) = sum_list (map (\<lambda>c. length (nonblank_lines (content c))) chunks)"
proof -
  have "length (map sourceData (build_rows chunks))
      = length (concat (map (\<lambda>c. map strip (nonblank_lines (content c))) chunks))"
    using build_rows_props by simp
  then show ?thesis by (simp add: length_concat o_def)
qed

lemma rows_chunks_loop_split:
  "rows_chunks_loop i (xs @ ys) rows = rows_chunks_loop (i + length xs) ys (rows_chunks_loop i xs rows)"
  by (induction xs arbitrary: i rows) simp_all






lemma build_rows_chunk:
  "\<exists>new rest. build_rows (pre @ chunk # post) = build_rows pre @ new @ rest
     \<and> map sourceData new = map strip (nonblank_lines (content chunk))
     \<and> (\<forall>r \<in> set new. row_cells r = [] \<and> row_hidden r = False)
     \<and> (\<forall>j < length new. row_id (new ! j) = mk_row_id (length pre) (length (build_rows pre) + j))"
proof -
  define rows where "rows = build_rows pre"
  from rows_chunk_step_append [of "length pre" chunk rows] obtain new where
    n: "rows_chunk_step (length pre) chunk rows = rows @ new"
       "map sourceData new = map strip (nonblank_lines (content chunk))"
       "\<forall>r \<in> set new. row_cells r = [] \<and> row_hidden r = False"
       "\<forall>j < length new. row_id (new ! j) = mk_row_id (length pre) (length rows + j)"
    by blast
  from rows_chunks_loop_append [of "Suc (length pre)" post "rows @ new"] obtain rest where
    r: "rows_chunks_loop (Suc (length pre)) post (rows @ new) = (rows @ new) @ rest"
    by blast
  have "build_rows (pre @ chunk # post) = rows @ new @ rest"
    using n(1) r by (simp add: build_rows_def rows_chunks_loop_split rows_def)
  with n(2,3,4) show ?thesis unfolding rows_def by blast
qed


text \<open>
  Claim C1. A chunk whose text has \<open>N\<close> non-blank lines contributes exactly \<open>N\<close> rows to
  the rows of any chunk list it stands in, placed after the rows of the chunks before it,
  each with an empty cell mapping and the identifier \<open>row_{chunk index}_{running count}\<close>.
  The row count is the sum of these numbers, all identifiers of the full row set are
  pairwise distinct, and there are no rows when there are no chunks or every chunk is blank.
\<close>

theorem C1_row_construction:
  "(\<exists>new rest. build_rows (pre @ chunk # post) = build_rows pre @ new @ rest
       \<and> length new = length (nonblank_lines (content chunk))
       \<and> (\<forall>r \<in> set new. row_cells r = [])
       \<and> (\<forall>j < length new.
             row_id (new ! j) = mk_row_id (length pre) (length (build_rows pre) + j)))
   \<and> length (build_rows chunks) = sum_list (map (\<lambda>c. length (nonblank_lines (content c))) chunks)
   \<and> (\<forall>r \<in> set (build_rows chunks). row_cells r = [])
   \<and> distinct (map row_id (build_rows chunks))
   \<and> build_rows [] = []
   \<and> ((\<forall>c \<in> set chunks. nonblank_lines (content c) = []) \<longrightarrow> build_rows chunks = [])"
proof -
  from build_rows_chunk [of pre chunk post] obtain new rest where
    n: "build_rows (pre @ chunk # post) = build_rows pre @ new @ rest"
       "map sourceData new = map strip (nonblank_lines (content chunk))"
       "\<forall>r \<in> set new. row_cells r = [] \<and> row_hidden r = False"
       "\<forall>j < length new. row_id (new ! j) = mk_row_id (length pre) (length (build_rows pre) + j)"
    by blast
  from n(2) have "length (map sourceData new) = length (map strip (nonblank_lines (content chunk)))"
    by (rule arg_cong)
  then have "length new = length (nonblank_lines (content chunk))" by simp
  with n(1,3,4) have first: "\<exists>new rest. build_rows (pre @ chunk # post) = build_rows pre @ new @ rest
       \<and> length new = length (nonblank_lines (content chunk))
       \<and> (\<forall>r \<in> set new. row_cells r = [])
       \<and> (\<forall>j < length new.
             row_id (new ! j) = mk_row_id (length pre) (length (build_rows pre) + j))"
    by blast
  have len: "length (build_rows chunks)
      = sum_list (map (\<lambda>c. length (nonblank_lines (content c))) chunks)"
    by (rule build_rows_length)
  have empty: "\<forall>r \<in> set (build_rows chunks). row_cells r = []"
    using build_rows_props [of chunks] by blast
  have blank: "(\<forall>c \<in> set chunks. nonblank_lines (content c) = []) \<longrightarrow> build_rows chunks = []"
  proof
    assume "\<forall>c \<in> set chunks. nonblank_lines (content c) = []"
    then have "sum_list (map (\<lambda>c. length (nonblank_lines (content c))) chunks) = 0"
      by simp
    with len show "build_rows chunks = []" by simp
  qed
  have nil: "build_rows [] = []" by (simp add: build_rows_def)
  from first len empty build_rows_distinct [of chunks] nil blank show ?thesis by blast
qed

theorem C1_row_construction_witness:
  "length (build_rows [\<lparr>content = py ''Acme Corp\<newline>\<newline>Beta Inc\<newline>''\<rparr>, \<lparr>content = py '' \<newline>  ''\<rparr>,
                       \<lparr>content = py ''Gamma''\<rparr>]) = 3
   \<and> length (nonblank_lines (py ''Acme Corp\<newline>\<newline>Beta Inc\<newline>'')) = 2
   \<and> map row_id (build_rows [\<lparr>content = py ''Acme Corp\<newline>\<newline>Beta Inc\<newline>''\<rparr>, \<lparr>content = py '' \<newline>  ''\<rparr>,
                       \<lparr>content = py ''Gamma''\<rparr>]) = [py ''row_0_0'', py ''row_0_1'', py ''row_2_2'']
   \<and> nonblank_lines (py '' \<newline>  '') = []
   \<and> build_rows [\<lparr>content = py '' \<newline>  ''\<rparr>] = []"
proof -
  have b: "nonblank_lines (py '' \<newline>  '') = []" 
    by (simp add: nonblank_lines_def py_def strip_def lstrip_def rstrip_def is_space_def)
  have h: "\<forall>c \<in> set [\<lparr>content = py '' \<newline>  ''\<rparr>]. nonblank_lines (content c) = []"
    using b by simp
  have e: "build_rows [\<lparr>content = py '' \<newline>  ''\<rparr>] = []"
    using C1_row_construction [of "[]" "\<lparr>content = py '' \<newline>  ''\<rparr>" "[]" "[\<lparr>content = py '' \<newline>  ''\<rparr>]"] h
    by blast
  have n: "length (nonblank_lines (py ''Acme Corp\<newline>\<newline>Beta Inc\<newline>'')) = 2" 
    by (simp add: nonblank_lines_def py_def strip_def lstrip_def rstrip_def is_space_def)
  have g: "length (nonblank_lines (py ''Gamma'')) = 1" 
    by (simp add: nonblank_lines_def py_def strip_def lstrip_def rstrip_def is_space_def)
  have "length (build_rows [\<lparr>content = py ''Acme Corp\<newline>\<newline>Beta Inc\<newline>''\<rparr>, \<lparr>content = py '' \<newline>  ''\<rparr>,
                       \<lparr>content = py ''Gamma''\<rparr>])
      = sum_list (map (\<lambda>c. length (nonblank_lines (content c)))
          [\<lparr>content = py ''Acme Corp\<newline>\<newline>Beta Inc\<newline>''\<rparr>, \<lparr>content = py '' \<newline>  ''\<rparr>,
           \<lparr>content = py ''Gamma''\<rparr>])"
    using C1_row_construction [of "[]" "\<lparr>content = py '' \<newline>  ''\<rparr>" "[]"
        "[\<lparr>content = py ''Acme Corp\<newline>\<newline>Beta Inc\<newline>''\<rparr>, \<lparr>content = py '' \<newline>  ''\<rparr>, \<lparr>content = py ''Gamma''\<rparr>]"]
    by (elim conjE)
  then have l: "length (build_rows [\<lparr>content = py ''Acme Corp\<newline>\<newline>Beta Inc\<newline>''\<rparr>, \<lparr>content = py '' \<newline>  ''\<rparr>,
                       \<lparr>content = py ''Gamma''\<rparr>]) = 3"
    using n g b by simp
  have i: "map row_id (build_rows [\<lparr>content = py ''Acme Corp\<newline>\<newline>Beta Inc\<newline>''\<rparr>, \<lparr>content = py '' \<newline>  ''\<rparr>,
                       \<lparr>content = py ''Gamma''\<rparr>]) = [py ''row_0_0'', py ''row_0_1'', py ''row_2_2'']"
    by (simp add: build_rows_def rows_chunk_step_def mk_row_id_def str_nat.simps py_def strip_def lstrip_def rstrip_def is_space_def)
  from l n i b e show ?thesis by blast
qed

lemma cells_loop_Company: "Company (cells_loop row cells d) = Company d"
  by (induction cells arbitrary: d) simp_all


section \<open>Properties of the aggregation\<close>

lemma column_names_distinct:
  "py ''is_indian'' \<noteq> py ''is_startup''" "py ''is_indian'' \<noteq> py ''is_tech''"
  "py ''is_startup'' \<noteq> py ''is_tech''"
  by (simp_all add: py_def)

lemma cells_loop_split:
  "cells_loop row (xs @ ys) d = cells_loop row ys (cells_loop row xs d)"
  by (induction xs arbitrary: d) simp_all

lemma cells_loop_Is_Indian:
  "Is_Indian (cells_loop row cells d) =
     (if matching row (py ''is_indian'') cells = [] then Is_Indian d
      else answer (last (matching row (py ''is_indian'') cells)))"
  by (induction cells arbitrary: d) (simp_all add: matching_def column_names_distinct)

lemma cells_loop_Is_Startup:
  "Is_Startup (cells_loop row cells d) =
     (if matching row (py ''is_startup'') cells = [] then Is_Startup d
      else answer (last (matching row (py ''is_startup'') cells)))"
  by (induction cells arbitrary: d) (simp_all add: matching_def column_names_distinct)

lemma cells_loop_Is_Tech:
  "Is_Tech (cells_loop row cells d) =
     (if matching row (py ''is_tech'') cells = [] then Is_Tech d
      else answer (last (matching row (py ''is_tech'') cells)))"
  by (induction cells arbitrary: d) (simp_all add: matching_def column_names_distinct)

lemma row_result_fields:
  "Company (row_result cells row) = sourceData row"
  "Is_Indian (row_result cells row) =
     (if matching row (py ''is_indian'') cells = [] then PStr (py ''N/A'')
      else answer (last (matching row (py ''is_indian'') cells)))"
  "Is_Startup (row_result cells row) =
     (if matching row (py ''is_startup'') cells = [] then PStr (py ''N/A'')
      else answer (last (matching row (py ''is_startup'') cells)))"
  "Is_Tech (row_result cells row) =
     (if matching row (py ''is_tech'') cells = [] then PStr (py ''N/A'')
      else answer (last (matching row (py ''is_tech'') cells)))"
  by (simp_all add: row_result_def cells_loop_Company cells_loop_Is_Indian
      cells_loop_Is_Startup cells_loop_Is_Tech)

lemma matching_none: "\<forall>c \<in> set cells. rowId c \<noteq> row_id row \<Longrightarrow> matching row col cells = []"
  by (simp add: matching_def filter_empty_conv)

text \<open>
  Claim C2. The results are one entry per row, in the rows' order, each carrying the row's
  company name. For a row that no cell of the response names in its \<open>rowId\<close>, the
  three answer fields are the sentinel \<open>"N/A"\<close>; for a row with exactly one cell per
  column (\<open>is_indian\<close>, \<open>is_startup\<close>, \<open>is_tech\<close>), the three fields are the answers
  of these cells.
\<close>

theorem C2_aggregation:
  "length (aggregate rows cells) = length rows
   \<and> (\<forall>i < length rows.
        Company (aggregate rows cells ! i) = sourceData (rows ! i)
        \<and> ((\<forall>c \<in> set cells. rowId c \<noteq> row_id (rows ! i)) \<longrightarrow>
             Is_Indian (aggregate rows cells ! i) = PStr (py ''N/A'')
             \<and> Is_Startup (aggregate rows cells ! i) = PStr (py ''N/A'')
             \<and> Is_Tech (aggregate rows cells ! i) = PStr (py ''N/A''))
        \<and> (\<forall>a b c. matching (rows ! i) (py ''is_indian'') cells = [a]
               \<and> matching (rows ! i) (py ''is_startup'') cells = [b]
               \<and> matching (rows ! i) (py ''is_tech'') cells = [c] \<longrightarrow>
             Is_Indian (aggregate rows cells ! i) = answer a
             \<and> Is_Startup (aggregate rows cells ! i) = answer b
             \<and> Is_Tech (aggregate rows cells ! i) = answer c))"
  by (simp add: aggregate_def row_result_fields matching_none)

theorem C2_aggregation_witness:
  "Is_Indian (aggregate [\<lparr>row_id = py ''row_0_0'', sourceData = py ''Acme Corp'', row_hidden = False, row_cells = []\<rparr>,
                         \<lparr>row_id = py ''row_0_1'', sourceData = py ''Beta Inc'', row_hidden = False, row_cells = []\<rparr>]
       [\<lparr>rowId = py ''row_0_0'', columnId = py ''is_tech'', answer = PBool True\<rparr>,
        \<lparr>rowId = py ''row_0_0'', columnId = py ''is_indian'', answer = PStr (py ''Y'')\<rparr>,
        \<lparr>rowId = py ''row_0_0'', columnId = py ''is_startup'', answer = PStr (py ''N'')\<rparr>] ! 0) = PStr (py ''Y'')
   \<and> Is_Tech (aggregate [\<lparr>row_id = py ''row_0_0'', sourceData = py ''Acme Corp'', row_hidden = False, row_cells = []\<rparr>,
                         \<lparr>row_id = py ''row_0_1'', sourceData = py ''Beta Inc'', row_hidden = False, row_cells = []\<rparr>]
       [\<lparr>rowId = py ''row_0_0'', columnId = py ''is_tech'', answer = PBool True\<rparr>,
        \<lparr>rowId = py ''row_0_0'', columnId = py ''is_indian'', answer = PStr (py ''Y'')\<rparr>,
        \<lparr>rowId = py ''row_0_0'', columnId = py ''is_startup'', answer = PStr (py ''N'')\<rparr>] ! 1) = PStr (py ''N/A'')"
  using C2_aggregation [of
      "[\<lparr>row_id = py ''row_0_0'', sourceData = py ''Acme Corp'', row_hidden = False, row_cells = []\<rparr>,
        \<lparr>row_id = py ''row_0_1'', sourceData = py ''Beta Inc'', row_hidden = False, row_cells = []\<rparr>]"
      "[\<lparr>rowId = py ''row_0_0'', columnId = py ''is_tech'', answer = PBool True\<rparr>,
        \<lparr>rowId = py ''row_0_0'', columnId = py ''is_indian'', answer = PStr (py ''Y'')\<rparr>,
        \<lparr>rowId = py ''row_0_0'', columnId = py ''is_startup'', answer = PStr (py ''N'')\<rparr>]"]
  by (simp add: matching_def py_def)

text \<open>
  Claim C8. When the response holds one or more cells with the row's \<open>rowId\<close> and the
  same \<open>columnId\<close>, the field of that column is the answer of the last of them in the
  response list: later cells overwrite earlier ones.
\<close>

theorem C8_last_cell_wins:
  "\<forall>i < length rows.
     (matching (rows ! i) (py ''is_indian'') cells \<noteq> [] \<longrightarrow>
        Is_Indian (aggregate rows cells ! i)
          = answer (last (matching (rows ! i) (py ''is_indian'') cells)))
     \<and> (matching (rows ! i) (py ''is_startup'') cells \<noteq> [] \<longrightarrow>
        Is_Startup (aggregate rows cells ! i)
          = answer (last (matching (rows ! i) (py ''is_startup'') cells)))
     \<and> (matching (rows ! i) (py ''is_tech'') cells \<noteq> [] \<longrightarrow>
        Is_Tech (aggregate rows cells ! i)
          = answer (last (matching (rows ! i) (py ''is_tech'') cells)))"
  by (simp add: aggregate_def row_result_fields)

theorem C8_last_cell_wins_witness:
  "matching \<lparr>row_id = py ''row_0_0'', sourceData = py ''Acme Corp'', row_hidden = False, row_cells = []\<rparr>
      (py ''is_tech'')
      [\<lparr>rowId = py ''row_0_0'', columnId = py ''is_tech'', answer = PStr (py ''Y'')\<rparr>,
       \<lparr>rowId = py ''row_0_0'', columnId = py ''is_indian'', answer = PStr (py ''Y'')\<rparr>,
       \<lparr>rowId = py ''row_0_0'', columnId = py ''is_tech'', answer = PStr (py ''N'')\<rparr>]
     = [\<lparr>rowId = py ''row_0_0'', columnId = py ''is_tech'', answer = PStr (py ''Y'')\<rparr>,
        \<lparr>rowId = py ''row_0_0'', columnId = py ''is_tech'', answer = PStr (py ''N'')\<rparr>]
   \<and> Is_Tech (aggregate [\<lparr>row_id = py ''row_0_0'', sourceData = py ''Acme Corp'', row_hidden = False, row_cells = []\<rparr>]
      [\<lparr>rowId = py ''row_0_0'', columnId = py ''is_tech'', answer = PStr (py ''Y'')\<rparr>,
       \<lparr>rowId = py ''row_0_0'', columnId = py ''is_indian'', answer = PStr (py ''Y'')\<rparr>,
       \<lparr>rowId = py ''row_0_0'', columnId = py ''is_tech'', answer = PStr (py ''N'')\<rparr>] ! 0) = PStr (py ''N'')"
  using C8_last_cell_wins [of
      "[\<lparr>row_id = py ''row_0_0'', sourceData = py ''Acme Corp'', row_hidden = False, row_cells = []\<rparr>]"
      "[\<lparr>rowId = py ''row_0_0'', columnId = py ''is_tech'', answer = PStr (py ''Y'')\<rparr>,
       \<lparr>rowId = py ''row_0_0'', columnId = py ''is_indian'', answer = PStr (py ''Y'')\<rparr>,
       \<lparr>rowId = py ''row_0_0'', columnId = py ''is_tech'', answer = PStr (py ''N'')\<rparr>]"]
  by (simp add: matching_def py_def)

lemma cells_loop_ignored:
  "rowId c \<noteq> row_id row \<or> columnId c \<notin> {py ''is_indian'', py ''is_startup'', py ''is_tech''}
   \<Longrightarrow> cells_loop row (xs @ c # ys) d = cells_loop row (xs @ ys) d"
  by (auto simp add: cells_loop_split)

text \<open>
  Claim C9. A cell whose \<open>rowId\<close> is the identifier of no row, or whose \<open>columnId\<close> is
  none of \<open>is_indian\<close>, \<open>is_startup\<close>, \<open>is_tech\<close>, changes nothing: the results are those
  of the response without it, still one entry per row, each with the same four keys.
  (The aggregation is a total function of rows and cells: there is no error to raise.)
\<close>

theorem C9_unknown_cells_ignored:
  "(\<forall>row \<in> set rows. rowId c \<noteq> row_id row)
     \<or> columnId c \<notin> {py ''is_indian'', py ''is_startup'', py ''is_tech''}
   \<Longrightarrow> aggregate rows (xs @ c # ys) = aggregate rows (xs @ ys)
     \<and> length (aggregate rows (xs @ c # ys)) = length rows
     \<and> (\<forall>r \<in> set (aggregate rows (xs @ c # ys)).
           dict_of_company_data r =
             PDict [(py ''Company'', PStr (Company r)), (py ''Is Indian'', Is_Indian r),
                    (py ''Is Startup'', Is_Startup r), (py ''Is Tech'', Is_Tech r)])"
proof -
  assume a: "(\<forall>row \<in> set rows. rowId c \<noteq> row_id row)
     \<or> columnId c \<notin> {py ''is_indian'', py ''is_startup'', py ''is_tech''}"
  have "\<forall>row \<in> set rows. row_result (xs @ c # ys) row = row_result (xs @ ys) row"
  proof
    fix row assume "row \<in> set rows"
    with a have "rowId c \<noteq> row_id row
        \<or> columnId c \<notin> {py ''is_indian'', py ''is_startup'', py ''is_tech''}" by blast
    then show "row_result (xs @ c # ys) row = row_result (xs @ ys) row"
      unfolding row_result_def by (rule cells_loop_ignored)
  qed
  then have "aggregate rows (xs @ c # ys) = aggregate rows (xs @ ys)"
    by (simp add: aggregate_def)
  then show ?thesis by (simp add: aggregate_def dict_of_company_data_def)
qed

theorem C9_unknown_cells_ignored_witness:
  "rowId \<lparr>rowId = py ''row_9_9'', columnId = py ''is_tech'', answer = PStr (py ''Y'')\<rparr>
      \<noteq> row_id \<lparr>row_id = py ''row_0_0'', sourceData = py ''Acme Corp'', row_hidden = False, row_cells = []\<rparr>
   \<and> aggregate [\<lparr>row_id = py ''row_0_0'', sourceData = py ''Acme Corp'', row_hidden = False, row_cells = []\<rparr>]
        [\<lparr>rowId = py ''row_9_9'', columnId = py ''is_tech'', answer = PStr (py ''Y'')\<rparr>,
         \<lparr>rowId = py ''row_0_0'', columnId = py ''is_tech'', answer = PStr (py ''N'')\<rparr>]
     = aggregate [\<lparr>row_id = py ''row_0_0'', sourceData = py ''Acme Corp'', row_hidden = False, row_cells = []\<rparr>]
        [\<lparr>rowId = py ''row_0_0'', columnId = py ''is_tech'', answer = PStr (py ''N'')\<rparr>]"
proof -
  have h: "rowId \<lparr>rowId = py ''row_9_9'', columnId = py ''is_tech'', answer = PStr (py ''Y'')\<rparr>
      \<noteq> row_id \<lparr>row_id = py ''row_0_0'', sourceData = py ''Acme Corp'', row_hidden = False, row_cells = []\<rparr>"
    by (simp add: py_def)
  then have "\<forall>row \<in> set [\<lparr>row_id = py ''row_0_0'', sourceData = py ''Acme Corp'', row_hidden = False, row_cells = []\<rparr>].
      rowId \<lparr>rowId = py ''row_9_9'', columnId = py ''is_tech'', answer = PStr (py ''Y'')\<rparr> \<noteq> row_id row"
    by simp
  then have "aggregate [\<lparr>row_id = py ''row_0_0'', sourceData = py ''Acme Corp'', row_hidden = False, row_cells = []\<rparr>]
        ([] @ \<lparr>rowId = py ''row_9_9'', columnId = py ''is_tech'', answer = PStr (py ''Y'')\<rparr> #
         [\<lparr>rowId = py ''row_0_0'', columnId = py ''is_tech'', answer = PStr (py ''N'')\<rparr>])
     = aggregate [\<lparr>row_id = py ''row_0_0'', sourceData = py ''Acme Corp'', row_hidden = False, row_cells = []\<rparr>]
        ([] @ [\<lparr>rowId = py ''row_0_0'', columnId = py ''is_tech'', answer = PStr (py ''N'')\<rparr>])"
    using C9_unknown_cells_ignored [of
        "[\<lparr>row_id = py ''row_0_0'', sourceData = py ''Acme Corp'', row_hidden = False, row_cells = []\<rparr>]"
        "\<lparr>rowId = py ''row_9_9'', columnId = py ''is_tech'', answer = PStr (py ''Y'')\<rparr>"
        "[]" "[\<lparr>rowId = py ''row_0_0'', columnId = py ''is_tech'', answer = PStr (py ''N'')\<rparr>]"]
    by blast
  with h show ?thesis by simp
qed

text \<open>
  Claim C7. A single chunk with the content \<open>"Acme Corp\n\nBeta Inc\n"\<close> gives exactly two
  rows, with \<open>sourceData\<close> \<open>"Acme Corp"\<close> and \<open>"Beta Inc"\<close>; with a response that holds
  one cell per column for the first row only, whatever the answers \<open>a\<close>, \<open>b\<close>, \<open>c\<close>, the
  results are one entry with these three answers and one entry whose three fields are
  \<open>"N/A"\<close>.
\<close>

theorem C7_scenario:
  "build_rows [\<lparr>content = py ''Acme Corp\<newline>\<newline>Beta Inc\<newline>''\<rparr>]
     = [\<lparr>row_id = py ''row_0_0'', sourceData = py ''Acme Corp'', row_hidden = False, row_cells = []\<rparr>,
        \<lparr>row_id = py ''row_0_1'', sourceData = py ''Beta Inc'', row_hidden = False, row_cells = []\<rparr>]
   \<and> aggregate (build_rows [\<lparr>content = py ''Acme Corp\<newline>\<newline>Beta Inc\<newline>''\<rparr>])
        [\<lparr>rowId = py ''row_0_0'', columnId = py ''is_indian'', answer = a\<rparr>,
         \<lparr>rowId = py ''row_0_0'', columnId = py ''is_startup'', answer = b\<rparr>,
         \<lparr>rowId = py ''row_0_0'', columnId = py ''is_tech'', answer = c\<rparr>]
     = [\<lparr>Company = py ''Acme Corp'', Is_Indian = a, Is_Startup = b, Is_Tech = c\<rparr>,
        \<lparr>Company = py ''Beta Inc'', Is_Indian = PStr (py ''N/A''), Is_Startup = PStr (py ''N/A''),
          Is_Tech = PStr (py ''N/A'')\<rparr>]"
proof -
  have rows: "build_rows [\<lparr>content = py ''Acme Corp\<newline>\<newline>Beta Inc\<newline>''\<rparr>]
     = [\<lparr>row_id = py ''row_0_0'', sourceData = py ''Acme Corp'', row_hidden = False, row_cells = []\<rparr>,
        \<lparr>row_id = py ''row_0_1'', sourceData = py ''Beta Inc'', row_hidden = False, row_cells = []\<rparr>]"
    by (simp add: build_rows_def rows_chunk_step_def mk_row_id_def str_nat.simps
        py_def strip_def lstrip_def rstrip_def is_space_def)
  show ?thesis unfolding rows
    by (simp add: aggregate_def row_result_def py_def)
qed

section \<open>Properties of the workflow\<close>

lemma files_written_append: "files_written (a @ b) = files_written a @ files_written b"
  by (induction a rule: files_written.induct) simp_all

lemma workflow_upload_fails:
  "open_pdf env p = None \<Longrightarrow> post_document env p = Inr r \<Longrightarrow> status_code r \<noteq> 201 \<Longrightarrow>
   workflow env p = ([Http (py ''POST'') (API_BASE_URL @ py ''/document'')],
     Inl (Exception (py ''Failed to upload document: '' @ resp_text r)))"
  by (simp add: workflow_def upload_pdf_def bind_io_def)

lemma workflow_after_upload:
  "upload_pdf env p = (t, Inr doc) \<Longrightarrow>
   workflow env p =
     bind_io (t, Inr doc) (\<lambda>document_id.
     bind_io (print_io env (py ''Document uploaded successfully with ID: '' @ document_id)) (\<lambda>_.
     bind_io (return_io create_table_columns) (\<lambda>columns.
     bind_io (print_io env (py ''Table columns created'')) (\<lambda>_.
     bind_io (create_table_rows env document_id) (\<lambda>rows.
     bind_io (print_io env (py ''Created '' @ str_nat (length rows) @ py '' rows from document'')) (\<lambda>_.
     bind_io (generate_table_cells env columns rows) (\<lambda>cells.
     bind_io (print_io env (py ''Generated '' @ str_nat (length cells) @ py '' cells'')) (\<lambda>_.
     bind_io (return_io (aggregate rows cells)) (\<lambda>results.
     bind_io (print_io env (10 # py ''Company Classification Results:'')) (\<lambda>_.
     bind_io (print_io env (replicate 80 45)) (\<lambda>_.
     bind_io (print_io env table_header) (\<lambda>_.
     bind_io (print_io env (replicate 80 45)) (\<lambda>_.
     bind_io (print_results env results) (\<lambda>_.
     bind_io (save_results env results) (\<lambda>_.
     print_io env (10 # py ''Results saved to company_classification_results.json''))))))))))))))))"
  by (simp add: workflow_def)

lemma no_file_upload:
  "snd (upload_pdf env p) = Inl e \<Longrightarrow> files_written (fst (workflow env p)) = []"
  by (cases "upload_pdf env p")
     (auto simp add: workflow_def bind_io_def upload_pdf_def split: option.splits sum.splits if_splits)

lemma no_file_chunks:
  "upload_pdf env p = (t, Inr doc) \<Longrightarrow> snd (create_table_rows env doc) = Inl e \<Longrightarrow>
   files_written (fst (workflow env p)) = []"
  by (cases "create_table_rows env doc")
     (auto simp add: workflow_def bind_io_def upload_pdf_def create_table_rows_def print_io_def
        return_io_def split: option.splits sum.splits if_splits)

lemma no_file_cells:
  "upload_pdf env p = (t, Inr doc) \<Longrightarrow> create_table_rows env doc = (t', Inr rows) \<Longrightarrow>
   snd (generate_table_cells env create_table_columns rows) = Inl e \<Longrightarrow>
   files_written (fst (workflow env p)) = []"
  by (cases "generate_table_cells env create_table_columns rows")
     (auto simp add: workflow_def bind_io_def upload_pdf_def create_table_rows_def print_io_def
        generate_table_cells_def return_io_def split: option.splits sum.splits if_splits)

lemma raises_upload:
  "snd (upload_pdf env p) = Inl e \<Longrightarrow> snd (workflow env p) = Inl e"
  by (cases "upload_pdf env p") (simp add: workflow_def bind_io_def)

lemma raises_chunks:
  "upload_pdf env p = (t, Inr doc) \<Longrightarrow> snd (create_table_rows env doc) = Inl e \<Longrightarrow>
   \<exists>e'. snd (workflow env p) = Inl e'"
  by (cases "create_table_rows env doc")
     (auto simp add: workflow_def bind_io_def print_io_def return_io_def
        split: option.splits sum.splits if_splits)

lemma raises_cells:
  "upload_pdf env p = (t, Inr doc) \<Longrightarrow> create_table_rows env doc = (t', Inr rows) \<Longrightarrow>
   snd (generate_table_cells env create_table_columns rows) = Inl e \<Longrightarrow>
   \<exists>e'. snd (workflow env p) = Inl e'"
  by (cases "generate_table_cells env create_table_columns rows")
     (auto simp add: workflow_def bind_io_def print_io_def return_io_def
        split: option.splits sum.splits if_splits)

lemma process_raised:
  "snd (workflow env p) = Inl e \<Longrightarrow>
   fst (process_pdf_and_classify_companies env p) =
     fst (workflow env p) @
       (case stdout_write env (py ''Error: '' @ str_exn e) of
          None \<Rightarrow> [Print (py ''Error: '' @ str_exn e)] | Some x \<Rightarrow> [])"
  by (cases "workflow env p")
     (simp add: process_pdf_and_classify_companies_def print_io_def split: option.splits)

lemma process_files:
  "files_written (fst (process_pdf_and_classify_companies env p))
     = files_written (fst (workflow env p))"
  by (cases "workflow env p"; cases "snd (workflow env p)")
     (simp_all add: process_pdf_and_classify_companies_def print_io_def files_written_append
        split: option.splits)

text \<open>
  Claim C4. When the upload request is answered with a status code other than 201,
  \<open>upload_pdf\<close> raises an exception whose message carries the raw response body; the run
  then consists of the upload request and the handler's line \<open>Error: ...\<close> with that
  message (if the output stream takes it) and nothing else: no chunk request, no
  generation request, no message of a later step, and no file is written.
\<close>

theorem C4_upload_failure:
  "open_pdf env pdf_path = None \<Longrightarrow> post_document env pdf_path = Inr r \<Longrightarrow>
   status_code r \<noteq> 201 \<Longrightarrow>
   upload_pdf env pdf_path =
     ([Http (py ''POST'') (API_BASE_URL @ py ''/document'')],
      Inl (Exception (py ''Failed to upload document: '' @ resp_text r)))
   \<and> fst (process_pdf_and_classify_companies env pdf_path) =
       Http (py ''POST'') (API_BASE_URL @ py ''/document'') #
       (case stdout_write env (py ''Error: '' @ py ''Failed to upload document: '' @ resp_text r) of
          None \<Rightarrow> [Print (py ''Error: '' @ py ''Failed to upload document: '' @ resp_text r)]
        | Some x \<Rightarrow> [])
   \<and> files_written (fst (process_pdf_and_classify_companies env pdf_path)) = []"
proof -
  assume a: "open_pdf env pdf_path = None" "post_document env pdf_path = Inr r"
    "status_code r \<noteq> 201"
  have u: "upload_pdf env pdf_path =
     ([Http (py ''POST'') (API_BASE_URL @ py ''/document'')],
      Inl (Exception (py ''Failed to upload document: '' @ resp_text r)))"
    using a by (simp add: upload_pdf_def)
  have w: "workflow env pdf_path =
     ([Http (py ''POST'') (API_BASE_URL @ py ''/document'')],
      Inl (Exception (py ''Failed to upload document: '' @ resp_text r)))"
    using a by (rule workflow_upload_fails)
  have p: "fst (process_pdf_and_classify_companies env pdf_path) =
       Http (py ''POST'') (API_BASE_URL @ py ''/document'') #
       (case stdout_write env (py ''Error: '' @ py ''Failed to upload document: '' @ resp_text r) of
          None \<Rightarrow> [Print (py ''Error: '' @ py ''Failed to upload document: '' @ resp_text r)]
        | Some x \<Rightarrow> [])"
    using process_raised [of env pdf_path "Exception (py ''Failed to upload document: '' @ resp_text r)"] w
    by (simp split: option.split)
  have f: "files_written (fst (process_pdf_and_classify_companies env pdf_path)) = []"
    using w by (simp add: process_files)
  from u p f show ?thesis by blast
qed

theorem C4_upload_failure_witness:
  "open_pdf (example_env 500 200 200) (py ''list.pdf'') = None
   \<and> status_code \<lparr>status_code = 500, resp_text = py ''upload refused'', json = py ''doc1''\<rparr> \<noteq> 201
   \<and> fst (process_pdf_and_classify_companies (example_env 500 200 200) (py ''list.pdf'')) =
       [Http (py ''POST'') (API_BASE_URL @ py ''/document''),
        Print (py ''Error: '' @ py ''Failed to upload document: '' @ py ''upload refused'')]"
proof -
  have a: "open_pdf (example_env 500 200 200) (py ''list.pdf'') = None"
    by (simp add: example_env_def)
  have b: "post_document (example_env 500 200 200) (py ''list.pdf'')
      = Inr \<lparr>status_code = 500, resp_text = py ''upload refused'', json = py ''doc1''\<rparr>"
    by (simp add: example_env_def)
  have c: "status_code \<lparr>status_code = 500, resp_text = py ''upload refused'', json = py ''doc1''\<rparr> \<noteq> 201"
    by simp
  have d: "stdout_write (example_env 500 200 200) s = None" for s
    by (simp add: example_env_def)
  from C4_upload_failure [OF a b c] a c show ?thesis by (simp add: d)
qed

lemma exact_chunks:
  "upload_pdf env p = (t, Inr doc) \<Longrightarrow> get_chunks env doc = Inr r \<Longrightarrow> status_code r \<noteq> 200 \<Longrightarrow>
   \<forall>s. stdout_write env s = None \<Longrightarrow>
   snd (workflow env p) = Inl (Exception (py ''Failed to get document chunks: '' @ resp_text r))"
  by (simp add: workflow_def bind_io_def print_io_def return_io_def create_table_rows_def)

lemma exact_cells:
  "upload_pdf env p = (t, Inr doc) \<Longrightarrow> create_table_rows env doc = (t', Inr rows) \<Longrightarrow>
   post_generate_cells env create_table_columns rows = Inr r \<Longrightarrow> status_code r \<noteq> 200 \<Longrightarrow>
   \<forall>s. stdout_write env s = None \<Longrightarrow>
   snd (workflow env p) = Inl (Exception (py ''Failed to generate cells: '' @ resp_text r))"
  by (simp add: workflow_def bind_io_def print_io_def return_io_def generate_table_cells_def)

lemma caught:
  "files_written (fst (workflow env p)) = [] \<Longrightarrow> snd (workflow env p) = Inl e \<Longrightarrow>
   files_written (fst (process_pdf_and_classify_companies env p)) = []
   \<and> fst (process_pdf_and_classify_companies env p) =
        fst (workflow env p) @
          (case stdout_write env (py ''Error: '' @ str_exn e) of
             None \<Rightarrow> [Print (py ''Error: '' @ str_exn e)] | Some x \<Rightarrow> [])"
  using process_files [of env p] process_raised [of env p e] by simp

text \<open>
  Claim C5. When an HTTP call of the workflow fails (the upload is answered with a status
  other than 201, the chunk request or the generation request with a status other than
  200), the body of \<open>process_pdf_and_classify_companies\<close> raises, the handler catches
  the exception and prints \<open>Error: ...\<close> with its message, and the run ends with no output
  file written. When the output stream takes every line, the exception caught is the one
  of the failed call, with the raw response body in its message.
\<close>

theorem C5_error_atomicity:
  "(open_pdf env p = None \<and> post_document env p = Inr r1 \<and> status_code r1 \<noteq> 201 \<longrightarrow>
      caught_and_reported env p (Exception (py ''Failed to upload document: '' @ resp_text r1)))
   \<and> (upload_pdf env p = (t, Inr doc) \<and> get_chunks env doc = Inr r2 \<and> status_code r2 \<noteq> 200 \<longrightarrow>
      (\<exists>e. caught_and_reported env p e)
      \<and> ((\<forall>s. stdout_write env s = None) \<longrightarrow> caught_and_reported env p
            (Exception (py ''Failed to get document chunks: '' @ resp_text r2))))
   \<and> (upload_pdf env p = (t, Inr doc) \<and> create_table_rows env doc = (t', Inr rows)
        \<and> post_generate_cells env create_table_columns rows = Inr r3 \<and> status_code r3 \<noteq> 200 \<longrightarrow>
      (\<exists>e. caught_and_reported env p e)
      \<and> ((\<forall>s. stdout_write env s = None) \<longrightarrow> caught_and_reported env p
            (Exception (py ''Failed to generate cells: '' @ resp_text r3))))"
proof (intro conjI impI; (elim conjE)?)
  assume "open_pdf env p = None" "post_document env p = Inr r1" "status_code r1 \<noteq> 201"
  then have "snd (upload_pdf env p)
      = Inl (Exception (py ''Failed to upload document: '' @ resp_text r1))"
    by (simp add: upload_pdf_def)
  then show "caught_and_reported env p
      (Exception (py ''Failed to upload document: '' @ resp_text r1))"
    unfolding caught_and_reported_def using no_file_upload raises_upload caught by blast
next
  assume u: "upload_pdf env p = (t, Inr doc)"
    and c: "get_chunks env doc = Inr r2" "status_code r2 \<noteq> 200"
  then have "snd (create_table_rows env doc)
      = Inl (Exception (py ''Failed to get document chunks: '' @ resp_text r2))"
    by (simp add: create_table_rows_def)
  then have f: "files_written (fst (workflow env p)) = []" and "\<exists>e. snd (workflow env p) = Inl e"
    using u no_file_chunks raises_chunks by blast+
  then show "\<exists>e. caught_and_reported env p e"
    unfolding caught_and_reported_def using caught by blast
  assume "\<forall>s. stdout_write env s = None"
  then have "snd (workflow env p)
      = Inl (Exception (py ''Failed to get document chunks: '' @ resp_text r2))"
    using u c exact_chunks by blast
  then show "caught_and_reported env p
      (Exception (py ''Failed to get document chunks: '' @ resp_text r2))"
    unfolding caught_and_reported_def using f caught by blast
next
  assume u: "upload_pdf env p = (t, Inr doc)" "create_table_rows env doc = (t', Inr rows)"
    and c: "post_generate_cells env create_table_columns rows = Inr r3" "status_code r3 \<noteq> 200"
  then have "snd (generate_table_cells env create_table_columns rows)
      = Inl (Exception (py ''Failed to generate cells: '' @ resp_text r3))"
    by (simp add: generate_table_cells_def)
  then have f: "files_written (fst (workflow env p)) = []" and "\<exists>e. snd (workflow env p) = Inl e"
    using u no_file_cells raises_cells by blast+
  then show "\<exists>e. caught_and_reported env p e"
    unfolding caught_and_reported_def using caught by blast
  assume "\<forall>s. stdout_write env s = None"
  then have "snd (workflow env p)
      = Inl (Exception (py ''Failed to generate cells: '' @ resp_text r3))"
    using u c exact_cells by blast
  then show "caught_and_reported env p
      (Exception (py ''Failed to generate cells: '' @ resp_text r3))"
    unfolding caught_and_reported_def using f caught by blast
qed

theorem C5_error_atomicity_witness:
  "upload_pdf (example_env 201 404 200) (py ''list.pdf'')
     = ([Http (py ''POST'') (API_BASE_URL @ py ''/document'')], Inr (py ''doc1''))
   \<and> status_code \<lparr>status_code = 404, resp_text = py ''no chunks'',
         json = [\<lparr>content = py ''Acme Corp\<newline>\<newline>Beta Inc\<newline>''\<rparr>]\<rparr> \<noteq> 200
   \<and> caught_and_reported (example_env 201 404 200) (py ''list.pdf'')
        (Exception (py ''Failed to get document chunks: '' @ py ''no chunks''))
   \<and> files_written (fst (process_pdf_and_classify_companies (example_env 201 404 200)
        (py ''list.pdf''))) = []"
proof -
  have u: "upload_pdf (example_env 201 404 200) (py ''list.pdf'')
     = ([Http (py ''POST'') (API_BASE_URL @ py ''/document'')], Inr (py ''doc1''))"
    by (simp add: upload_pdf_def example_env_def)
  have g: "get_chunks (example_env 201 404 200) (py ''doc1'')
     = Inr \<lparr>status_code = 404, resp_text = py ''no chunks'',
         json = [\<lparr>content = py ''Acme Corp\<newline>\<newline>Beta Inc\<newline>''\<rparr>]\<rparr>"
    by (simp add: example_env_def)
  have s: "status_code \<lparr>status_code = 404, resp_text = py ''no chunks'',
         json = [\<lparr>content = py ''Acme Corp\<newline>\<newline>Beta Inc\<newline>''\<rparr>]\<rparr> \<noteq> 200"
    by simp
  have o: "\<forall>s. stdout_write (example_env 201 404 200) s = None"
    by (simp add: example_env_def)
  have c: "caught_and_reported (example_env 201 404 200) (py ''list.pdf'')
        (Exception (py ''Failed to get document chunks: '' @ py ''no chunks''))"
    using C5_error_atomicity [where env = "example_env 201 404 200" and p = "py ''list.pdf''"
        and t = "[Http (py ''POST'') (API_BASE_URL @ py ''/document'')]" and doc = "py ''doc1''"
        and ?r2.0 = "\<lparr>status_code = 404, resp_text = py ''no chunks'',
         json = [\<lparr>content = py ''Acme Corp\<newline>\<newline>Beta Inc\<newline>''\<rparr>]\<rparr>"] u g s o
    by simp
  then have "files_written (fst (process_pdf_and_classify_companies (example_env 201 404 200)
        (py ''list.pdf''))) = []"
    unfolding caught_and_reported_def by (elim conjE)
  with u s c show ?thesis by blast
qed

section \<open>The names as they are printed and saved\<close>


















section \<open>Column Builder\<close>








end
